theory Spec2Isabelle
  imports Complex_Main "HOL-Library.Word"
begin

section \<open>The MQTT to MongoDB bridge of \<^verbatim>\<open>src/index.js\<close>\<close>

text \<open>
  The file holds two revisions of the same worker. The second one (lines 117 to 312,
  with the per-topic throttle map, the guarded \<^verbatim>\<open>JSON.parse\<close>, the interval
  validation and the signal handlers) is the one modelled here.

  The worker is event driven. Its code runs in segments that the host executes one at
  a time, each one to completion: the module body, and then one segment per event
  (a settled promise, an MQTT client event, a signal). An \<^verbatim>\<open>async\<close> function is
  cut at its \<^verbatim>\<open>await\<close>s: the part before runs in the segment of the call, the
  part after in the segment of the settlement. The model is a step function on an
  explicit process state, one step per segment.
\<close>

subsection \<open>Values of the host language\<close>

text \<open>
  A string is a sequence of UTF-16 code units (\<^verbatim>\<open>slice\<close> counts those), a
  \<^verbatim>\<open>Buffer\<close> a sequence of bytes. Names of environment variables are the ASCII
  literals of the source. A number is a double: a real, an infinity or NaN; only its
  order and \<^verbatim>\<open>Number.isFinite\<close> are used. \<^verbatim>\<open>Date.now()\<close> is an integer
  count of milliseconds.
\<close>

type_synonym jsstring = "16 word list"
type_synonym buffer = "8 word list"

datatype jsnum = NaN | NegInfinity | Fin real | PosInfinity

fun js_lt :: "jsnum \<Rightarrow> jsnum \<Rightarrow> bool" where
  "js_lt (Fin a) (Fin b) = (a < b)"
| "js_lt (Fin a) PosInfinity = True"
| "js_lt NegInfinity (Fin b) = True"
| "js_lt NegInfinity PosInfinity = True"
| "js_lt _ _ = False"

fun isFinite :: "jsnum \<Rightarrow> bool" where
  "isFinite (Fin a) = True"
| "isFinite _ = False"

text \<open>
  What the program is given by its host: the environment, and the library functions it
  calls whose results the source does not determine. \<open>JSON_parse\<close> returns \<open>None\<close>
  where \<^verbatim>\<open>JSON.parse\<close> throws. \<open>multiply\<close> is the product of two doubles.
  \<open>MongoClient_new\<close> gives the error that the constructor of the sink client throws on
  a connection string, and \<open>None\<close> where it returns; \<open>Db_collection\<close> does the same
  for \<^verbatim>\<open>mongoClient.db(DB_NAME).collection(COLLECTION_NAME)\<close> on the two names.
\<close>

record 'p host =
  process_env :: "string \<rightharpoonup> jsstring"
  Number :: "jsstring option \<Rightarrow> jsnum"
  multiply :: "jsnum \<Rightarrow> jsnum \<Rightarrow> jsnum"
  Buffer_toString :: "buffer \<Rightarrow> jsstring"
  JSON_parse :: "jsstring \<Rightarrow> 'p option"
  MongoClient_new :: "jsstring option \<Rightarrow> jsstring option"
  Db_collection :: "jsstring option \<Rightarrow> jsstring option \<Rightarrow> jsstring option"

subsection \<open>Validation of the environment (lines 139 to 164)\<close>

definition requiredVars :: "string list" where
  "requiredVars =
     [''MQTT_URL'', ''MQTT_USERNAME'', ''MQTT_PASSWORD'', ''MQTT_TOPIC'',
      ''MONGODB_URI'', ''DB_NAME'', ''COLLECTION_NAME'', ''MIN_SAVE_INTERVAL_SEC'']"

text \<open>\<^verbatim>\<open>!process.env[v]\<close>: an entry is a string or undefined, and the empty string is falsy.\<close>

definition falsy :: "jsstring option \<Rightarrow> bool" where
  "falsy x = (case x of None \<Rightarrow> True | Some s \<Rightarrow> s = [])"

text \<open>The loop of line 150 leaves at the first variable that fails the test.\<close>

fun missing_var :: "(string \<rightharpoonup> jsstring) \<Rightarrow> string list \<Rightarrow> string option" where
  "missing_var env [] = None"
| "missing_var env (v # vs) = (if falsy (env v) then Some v else missing_var env vs)"

definition minIntervalSec :: "'p host \<Rightarrow> jsnum" where
  "minIntervalSec h = Number h (process_env h ''MIN_SAVE_INTERVAL_SEC'')"

definition minIntervalMs :: "'p host \<Rightarrow> jsnum" where
  "minIntervalMs h = multiply h (minIntervalSec h) (Fin 1000)"

subsection \<open>Process state and effects\<close>

record 'p doc =
  doc_topic :: jsstring
  payload :: 'p
  receivedAt :: int

text \<open>The signals for which the module body registers a handler (lines 299 and 300).\<close>

datatype signal = SIGINT | SIGTERM

text \<open>One constructor per \<^verbatim>\<open>console\<close> call of the source, with the values it prints.\<close>

datatype logline =
    MissingEnvVariable string
  | InvalidMinSaveInterval "jsstring option"
  | StartingBackend
  | ConnectingMongo
  | MongoConnected "jsstring option" "jsstring option"
  | ConnectingMQTT "jsstring option" "jsstring option"
  | MqttConnected
  | SubscribeError jsstring
  | Subscribed
  | MqttReconnecting
  | MqttOffline
  | MqttClosed
  | InvalidJSONPayload jsstring jsstring
  | SavedReading int jsstring
  | ErrorProcessingMessage jsstring
  | MqttError jsstring
  | ReceivedSignal signal
  | MongoCloseError jsstring
  | FatalError jsstring

text \<open>
  What the process does to the outside, in program order. \<open>Uncaught\<close> is the report of
  the host on an exception that no handler of the program catches; the host then ends
  the process with status 1.
\<close>

datatype 'p effect =
    Console logline
  | Uncaught jsstring
  | MongoConnect
  | MqttConnect "jsstring option"
  | MqttSubscribe "jsstring option"
  | InsertOne "'p doc"
  | MongoClose
  | ProcessExit nat

datatype phase = Connecting | Running | Exited nat

text \<open>
  \<open>awaiting\<close> holds the message handlers suspended at
  \<^verbatim>\<open>await collection.insertOne(doc)\<close>, \<open>closing\<close> counts the calls of
  \<^verbatim>\<open>shutdown\<close> suspended at \<^verbatim>\<open>await mongoClient.close()\<close>.
\<close>

record 'p proc =
  phase :: phase
  lastSavedByKey :: "jsstring \<rightharpoonup> int"
  awaiting :: "'p doc list"
  closing :: nat
  trace :: "'p effect list"

text \<open>How an awaited call settles; a rejection carries the message of its error.\<close>

datatype settle = Fulfilled | Rejected jsstring

subsection \<open>The module body (lines 150 to 177 and 299 to 312)\<close>

definition halted :: "nat \<Rightarrow> 'p effect list \<Rightarrow> 'p proc" where
  "halted code es =
     \<lparr>phase = Exited code, lastSavedByKey = Map.empty, awaiting = [], closing = 0,
      trace = es @ [ProcessExit code]\<rparr>"

text \<open>
  The body validates the environment and constructs the sink client (line 171). The
  constructor is called outside every \<^verbatim>\<open>try\<close>: when it throws, the host reports
  the exception and the process ends with status 1, before the signal handlers are
  registered and before anything is printed by the start-up code. Otherwise the body
  registers the signal handlers and starts \<^verbatim>\<open>connectMongo\<close>, which suspends at
  \<^verbatim>\<open>await mongoClient.connect()\<close> (line 181). The interval in milliseconds
  (line 164) is the product above, whatever double it is: after the validation a real
  that is not negative, or the positive infinity when the product overflows.
\<close>

definition boot :: "'p host \<Rightarrow> 'p proc" where
  "boot h =
     (case missing_var (process_env h) requiredVars of
        Some v \<Rightarrow> halted 1 [Console (MissingEnvVariable v)]
      | None \<Rightarrow>
          if \<not> isFinite (minIntervalSec h) \<or> js_lt (minIntervalSec h) (Fin 0)
          then halted 1
                 [Console (InvalidMinSaveInterval (process_env h ''MIN_SAVE_INTERVAL_SEC''))]
          else
            (case MongoClient_new h (process_env h ''MONGODB_URI'') of
               Some err \<Rightarrow> halted 1 [Uncaught err]
             | None \<Rightarrow>
                 \<lparr>phase = Connecting, lastSavedByKey = Map.empty, awaiting = [], closing = 0,
                  trace = [Console StartingBackend, Console ConnectingMongo, MongoConnect]\<rparr>))"

subsection \<open>Settlement of the sink connection (lines 181 to 219 and 306 to 311)\<close>

text \<open>
  \<open>thrown\<close> is the error that \<^verbatim>\<open>mqtt.connect\<close> throws, if it throws; the
  \<^verbatim>\<open>catch\<close> of line 308 receives it as it receives a rejected connection, and as
  it receives an error thrown at lines 182 and 183.
  Of \<^verbatim>\<open>connectMQTT\<close> the model keeps the call of \<^verbatim>\<open>mqtt.connect\<close> and
  one printed entry with the address and the topic filter. The lines that print the
  user name and the lengths of the credentials (196 to 201) and the options of the call
  are not part of it: no property below reads them.
\<close>

definition fatal :: "'p proc \<Rightarrow> jsstring \<Rightarrow> 'p proc" where
  "fatal s err =
     s\<lparr>phase := Exited 1, trace := trace s @ [Console (FatalError err), ProcessExit 1]\<rparr>"

definition on_mongo_settled :: "'p host \<Rightarrow> 'p proc \<Rightarrow> settle \<Rightarrow> jsstring option \<Rightarrow> 'p proc" where
  "on_mongo_settled h s r thrown =
     (case r of
        Rejected err \<Rightarrow> fatal s err
      | Fulfilled \<Rightarrow>
          (case Db_collection h (process_env h ''DB_NAME'') (process_env h ''COLLECTION_NAME'') of
             Some err \<Rightarrow> fatal s err
           | None \<Rightarrow>
               let s1 = s\<lparr>trace := trace s @
                          [Console (MongoConnected (process_env h ''DB_NAME'')
                                      (process_env h ''COLLECTION_NAME'')),
                           Console (ConnectingMQTT (process_env h ''MQTT_URL'')
                                      (process_env h ''MQTT_TOPIC'')),
                           MqttConnect (process_env h ''MQTT_URL'')]\<rparr>
               in (case thrown of
                     Some err \<Rightarrow> fatal s1 err
                   | None \<Rightarrow> s1\<lparr>phase := Running\<rparr>)))"

subsection \<open>The message handler (lines 240 to 279)\<close>

text \<open>
  A delivery is what one call of the handler reads: its two arguments, the value of
  \<^verbatim>\<open>Date.now()\<close> at line 246 and of \<^verbatim>\<open>new Date()\<close> at line 271.
\<close>

record delivery =
  topic :: jsstring
  message :: buffer
  clock :: int
  date :: int

text \<open>\<^verbatim>\<open>lastSavedByKey.get(throttleKey) || 0\<close>: undefined and 0 are falsy.\<close>

definition or_zero :: "int option \<Rightarrow> int" where
  "or_zero v = (case v of None \<Rightarrow> 0 | Some t \<Rightarrow> if t = 0 then 0 else t)"

text \<open>The test of line 248.\<close>

definition throttled :: "'p host \<Rightarrow> 'p proc \<Rightarrow> jsstring \<Rightarrow> int \<Rightarrow> bool" where
  "throttled h s throttleKey now =
     (let last = or_zero (lastSavedByKey s throttleKey)
      in js_lt (Fin (of_int (now - last))) (minIntervalMs h))"

text \<open>
  How the synchronous part of the handler ends: the return of line 248, the return of
  line 262, or the suspension at line 274 with the document handed to the sink.
\<close>

datatype 'p verdict = Throttled | Malformed | Awaiting "'p doc"

definition on_message :: "'p host \<Rightarrow> 'p proc \<Rightarrow> delivery \<Rightarrow> 'p proc \<times> 'p verdict" where
  "on_message h s d =
     (let throttleKey = topic d; now = clock d
      in if throttled h s throttleKey now then (s, Throttled)
         else
           let raw = Buffer_toString h (message d)
           in (case JSON_parse h raw of
                 None \<Rightarrow>
                   (s\<lparr>trace := trace s @
                        [Console (InvalidJSONPayload (topic d) (take 300 raw))]\<rparr>,
                    Malformed)
               | Some p \<Rightarrow>
                   let s1 = s\<lparr>lastSavedByKey := (lastSavedByKey s)(throttleKey \<mapsto> now)\<rparr>;
                       doc = \<lparr>doc_topic = topic d, payload = p, receivedAt = date d\<rparr>
                   in (s1\<lparr>awaiting := awaiting s1 @ [doc],
                           trace := trace s1 @ [InsertOne doc]\<rparr>,
                       Awaiting doc)))"

text \<open>
  The rest of the handler, run when the insert of the \<open>i\<close>-th suspended handler
  settles: line 275, or the \<^verbatim>\<open>catch\<close> of line 276. An insert that throws at
  once reaches the same \<^verbatim>\<open>catch\<close>, after the same commit.
\<close>

definition on_insert_settled :: "'p proc \<Rightarrow> nat \<Rightarrow> settle \<Rightarrow> 'p proc" where
  "on_insert_settled s i r =
     (if i < length (awaiting s)
      then
        let doc = awaiting s ! i;
            s1 = s\<lparr>awaiting := take i (awaiting s) @ drop (Suc i) (awaiting s)\<rparr>
        in (case r of
              Fulfilled \<Rightarrow>
                s1\<lparr>trace := trace s1 @ [Console (SavedReading (receivedAt doc) (doc_topic doc))]\<rparr>
            | Rejected err \<Rightarrow>
                s1\<lparr>trace := trace s1 @ [Console (ErrorProcessingMessage err)]\<rparr>)
      else s)"

subsection \<open>Shutdown (lines 289 to 300)\<close>

definition shutdown :: "'p proc \<Rightarrow> signal \<Rightarrow> 'p proc" where
  "shutdown s signal =
     s\<lparr>closing := Suc (closing s),
       trace := trace s @ [Console (ReceivedSignal signal), MongoClose]\<rparr>"

definition on_close_settled :: "'p proc \<Rightarrow> settle \<Rightarrow> 'p proc" where
  "on_close_settled s r =
     (if closing s = 0 then s
      else
        let s1 = (case r of
                    Fulfilled \<Rightarrow> s
                  | Rejected err \<Rightarrow> s\<lparr>trace := trace s @ [Console (MongoCloseError err)]\<rparr>)
        in s1\<lparr>phase := Exited 0, closing := closing s1 - 1,
               trace := trace s1 @ [ProcessExit 0]\<rparr>)"

subsection \<open>Events and the step function\<close>

datatype event =
    MongoConnectSettled settle "jsstring option"
  | MqttConnectEvent
  | SubscribeCallback "jsstring option"
  | MqttReconnectEvent
  | MqttOfflineEvent
  | MqttCloseEvent
  | MqttErrorEvent jsstring
  | Message delivery
  | InsertSettled nat settle
  | Signal signal
  | CloseSettled settle

definition say :: "'p proc \<Rightarrow> logline \<Rightarrow> 'p proc" where
  "say s l = s\<lparr>trace := trace s @ [Console l]\<rparr>"

text \<open>
  The handlers of the MQTT client exist from \<^verbatim>\<open>connectMQTT\<close> on, those of the
  signals from the module body on; a process that has exited runs nothing.
\<close>

definition on_client_event :: "'p host \<Rightarrow> 'p proc \<Rightarrow> event \<Rightarrow> 'p proc" where
  "on_client_event h s e =
     (case e of
        MqttConnectEvent \<Rightarrow>
          s\<lparr>trace := trace s @
              [Console MqttConnected, MqttSubscribe (process_env h ''MQTT_TOPIC'')]\<rparr>
      | SubscribeCallback err \<Rightarrow>
          (case err of Some m \<Rightarrow> say s (SubscribeError m) | None \<Rightarrow> say s Subscribed)
      | MqttReconnectEvent \<Rightarrow> say s MqttReconnecting
      | MqttOfflineEvent \<Rightarrow> say s MqttOffline
      | MqttCloseEvent \<Rightarrow> say s MqttClosed
      | MqttErrorEvent m \<Rightarrow> say s (MqttError m)
      | Message d \<Rightarrow> fst (on_message h s d)
      | InsertSettled i r \<Rightarrow> on_insert_settled s i r
      | _ \<Rightarrow> s)"

definition step :: "'p host \<Rightarrow> 'p proc \<Rightarrow> event \<Rightarrow> 'p proc" where
  "step h s e =
     (case phase s of
        Exited code \<Rightarrow> s
      | Connecting \<Rightarrow>
          (case e of
             MongoConnectSettled r thrown \<Rightarrow> on_mongo_settled h s r thrown
           | Signal signal \<Rightarrow> shutdown s signal
           | CloseSettled r \<Rightarrow> on_close_settled s r
           | _ \<Rightarrow> s)
      | Running \<Rightarrow>
          (case e of
             MongoConnectSettled r thrown \<Rightarrow> s
           | Signal signal \<Rightarrow> shutdown s signal
           | CloseSettled r \<Rightarrow> on_close_settled s r
           | _ \<Rightarrow> on_client_event h s e))"

fun run :: "'p host \<Rightarrow> 'p proc \<Rightarrow> event list \<Rightarrow> 'p proc" where
  "run h s [] = s"
| "run h s (e # es) = run h (step h s e) es"

subsection \<open>Predicates on events, effects and states\<close>

text \<open>
  An event that hands the message handler a message on topic \<open>k\<close>, and the event in
  which the connection to the sink succeeds.
\<close>

definition delivers_to :: "jsstring \<Rightarrow> event \<Rightarrow> bool" where
  "delivers_to k e = (case e of Message d \<Rightarrow> topic d = k | _ \<Rightarrow> False)"




fun is_insert :: "'p effect \<Rightarrow> bool" where
  "is_insert (InsertOne doc) = True"
| "is_insert _ = False"

text \<open>Every handler suspended at its insert has a time recorded for its topic.\<close>

definition committed :: "'p proc \<Rightarrow> bool" where
  "committed s = list_all (\<lambda>doc. lastSavedByKey s (doc_topic doc) \<noteq> None) (awaiting s)"




subsection \<open>Sample inputs\<close>

text \<open>
  Inputs at which the model is run below. The sample host has every required variable
  set, with an interval of 60 seconds, the broker at \<^verbatim>\<open>mqtt://h\<close> and the sink at
  \<^verbatim>\<open>mongodb://h\<close>. Its library functions agree with the real ones on the values
  used, up to the text of an error: \<^verbatim>\<open>Number("60")\<close> is 60, the product of 60 and
  1000 is exact, a buffer of ASCII bytes decodes to the same code units,
  \<^verbatim>\<open>JSON.parse\<close> accepts the text \<^verbatim>\<open>{}\<close> and throws on \<^verbatim>\<open>not-json\<close> and on
  a run of the letter \<^verbatim>\<open>x\<close>, the constructor of the sink client returns on
  \<^verbatim>\<open>mongodb://h\<close> and throws on \<^verbatim>\<open>m\<close>, which names no scheme, and the
  database \<^verbatim>\<open>d\<close> and its collection \<^verbatim>\<open>c\<close> are handed out. A parsed value is
  represented by its text.
\<close>

definition demo_env :: "string \<rightharpoonup> jsstring" where
  "demo_env =
     [''MQTT_URL'' \<mapsto> [0x6D, 0x71, 0x74, 0x74, 0x3A, 0x2F, 0x2F, 0x68],
      ''MQTT_USERNAME'' \<mapsto> [0x75], ''MQTT_PASSWORD'' \<mapsto> [0x70], ''MQTT_TOPIC'' \<mapsto> [0x23],
      ''MONGODB_URI'' \<mapsto> [0x6D, 0x6F, 0x6E, 0x67, 0x6F, 0x64, 0x62, 0x3A, 0x2F, 0x2F, 0x68],
      ''DB_NAME'' \<mapsto> [0x64], ''COLLECTION_NAME'' \<mapsto> [0x63],
      ''MIN_SAVE_INTERVAL_SEC'' \<mapsto> [0x36, 0x30]]"

definition demo_host :: "jsstring host" where
  "demo_host =
     \<lparr>process_env = demo_env,
      Number = (\<lambda>v. if v = Some [0x36, 0x30] then Fin 60 else NaN),
      multiply = (\<lambda>a b. case (a, b) of (Fin x, Fin y) \<Rightarrow> Fin (x * y) | _ \<Rightarrow> NaN),
      Buffer_toString = map ucast,
      JSON_parse = (\<lambda>raw. if raw = [0x7B, 0x7D] then Some raw else None),
      MongoClient_new = (\<lambda>uri. if uri = Some [0x6D] then Some [0x65] else None),
      Db_collection = (\<lambda>db coll. None)\<rparr>"


definition demo_unset :: "jsstring host" where
  "demo_unset = demo_host\<lparr>process_env := demo_env(''MQTT_TOPIC'' \<mapsto> [])\<rparr>"


text \<open>The sample process after the sink and the broker have connected.\<close>

definition demo_running :: "jsstring proc" where
  "demo_running =
     run demo_host (boot demo_host) [MongoConnectSettled Fulfilled None, MqttConnectEvent]"

text \<open>
  Three messages on one topic with the text \<^verbatim>\<open>{}\<close>: a first one, one 30 seconds
  and one 61 seconds after it.
\<close>

definition d_first :: delivery where
  "d_first = \<lparr>topic = [0x73], message = [0x7B, 0x7D], clock = 1790000000000, date = 1790000000001\<rparr>"

definition d_soon :: delivery where
  "d_soon = \<lparr>topic = [0x73], message = [0x7B, 0x7D], clock = 1790000030000, date = 1790000030001\<rparr>"

definition d_late :: delivery where
  "d_late = \<lparr>topic = [0x73], message = [0x7B, 0x7D], clock = 1790000061000, date = 1790000061001\<rparr>"

text \<open>The sample process after it has taken the first message.\<close>

definition demo_saved :: "jsstring proc" where
  "demo_saved = fst (on_message demo_host demo_running d_first)"

text \<open>
  A first message on a topic, with the text \<^verbatim>\<open>{}\<close>, read at a clock of 5 seconds;
  a message with the text \<^verbatim>\<open>not-json\<close>, 30 seconds after the first sample message
  and on its topic; and a message of 400 bytes \<^verbatim>\<open>x\<close> at that time.
\<close>

definition d_epoch :: delivery where
  "d_epoch = \<lparr>topic = [0x73], message = [0x7B, 0x7D], clock = 5000, date = 5000\<rparr>"

definition d_garbled :: delivery where
  "d_garbled =
     \<lparr>topic = [0x73], message = [0x6E, 0x6F, 0x74, 0x2D, 0x6A, 0x73, 0x6F, 0x6E],
      clock = 1790000030000, date = 1790000030001\<rparr>"

definition d_long :: delivery where
  "d_long = \<lparr>topic = [0x73], message = replicate 400 0x78, clock = 1790000030000,
             date = 1790000030001\<rparr>"

section \<open>Properties\<close>

subsection \<open>Auxiliary facts\<close>

lemma missing_var_None: "missing_var env vs = None \<longleftrightarrow> (\<forall>v\<in>set vs. \<not> falsy (env v))"
  by (induction vs) auto

lemma missing_var_Some: "missing_var env vs = Some v \<Longrightarrow> v \<in> set vs \<and> falsy (env v)"
  by (induction vs) (auto split: if_splits)

lemma missing_var_cong:
  "(\<forall>v\<in>set vs. falsy (env v) = falsy (env' v)) \<Longrightarrow> missing_var env vs = missing_var env' vs"
  by (induction vs) auto

lemma or_zero_Some [simp]: "or_zero (Some t) = t"
  by (simp add: or_zero_def)

lemma or_zero_None [simp]: "or_zero None = 0"
  by (simp add: or_zero_def)

lemma on_message_throttled:
  "throttled h s (topic d) (clock d) \<Longrightarrow> on_message h s d = (s, Throttled)"
  by (simp add: on_message_def)

lemma on_message_malformed:
  "\<not> throttled h s (topic d) (clock d) \<Longrightarrow> JSON_parse h (Buffer_toString h (message d)) = None \<Longrightarrow>
   on_message h s d =
     (s\<lparr>trace := trace s @
          [Console (InvalidJSONPayload (topic d) (take 300 (Buffer_toString h (message d))))]\<rparr>,
      Malformed)"
  by (simp add: on_message_def)

lemma on_message_accepted:
  "\<not> throttled h s (topic d) (clock d) \<Longrightarrow> JSON_parse h (Buffer_toString h (message d)) = Some p \<Longrightarrow>
   on_message h s d =
     (s\<lparr>lastSavedByKey := (lastSavedByKey s)(topic d \<mapsto> clock d),
        awaiting := awaiting s @ [\<lparr>doc_topic = topic d, payload = p, receivedAt = date d\<rparr>],
        trace := trace s @ [InsertOne \<lparr>doc_topic = topic d, payload = p, receivedAt = date d\<rparr>]\<rparr>,
      Awaiting \<lparr>doc_topic = topic d, payload = p, receivedAt = date d\<rparr>)"
  by (simp add: on_message_def Let_def)

lemma on_message_Awaiting:
  assumes "on_message h s d = (s1, Awaiting doc)"
  shows "\<not> throttled h s (topic d) (clock d)"
    and "\<exists>p. JSON_parse h (Buffer_toString h (message d)) = Some p \<and>
             doc = \<lparr>doc_topic = topic d, payload = p, receivedAt = date d\<rparr>"
    and "s1 = s\<lparr>lastSavedByKey := (lastSavedByKey s)(topic d \<mapsto> clock d),
               awaiting := awaiting s @ [doc], trace := trace s @ [InsertOne doc]\<rparr>"
  using assms by (auto simp: on_message_def Let_def split: if_splits option.splits)

lemma throttled_after_commit:
  "lastSavedByKey s k = Some t \<Longrightarrow>
   throttled h s k now = js_lt (Fin (of_int (now - t))) (minIntervalMs h)"
  by (simp add: throttled_def)

lemma throttled_cong:
  "lastSavedByKey s' k = lastSavedByKey s k \<Longrightarrow> throttled h s' k now = throttled h s k now"
  by (simp add: throttled_def)

lemma on_message_map_other:
  "k \<noteq> topic d \<Longrightarrow> lastSavedByKey (fst (on_message h s d)) k = lastSavedByKey s k"
  by (simp add: on_message_def Let_def split: option.splits)

lemma on_insert_settled_map [simp]:
  "lastSavedByKey (on_insert_settled s i r) = lastSavedByKey s"
  by (simp add: on_insert_settled_def Let_def split: settle.splits)

lemma shutdown_map [simp]: "lastSavedByKey (shutdown s g) = lastSavedByKey s"
  by (simp add: shutdown_def)

lemma on_close_settled_map [simp]: "lastSavedByKey (on_close_settled s r) = lastSavedByKey s"
  by (simp add: on_close_settled_def Let_def split: settle.splits)

lemma on_mongo_settled_map [simp]: "lastSavedByKey (on_mongo_settled h s r t) = lastSavedByKey s"
  by (simp add: on_mongo_settled_def fatal_def Let_def split: settle.splits option.splits)

lemma step_map_frame:
  "\<not> delivers_to k e \<Longrightarrow> lastSavedByKey (step h s e) k = lastSavedByKey s k"
  by (cases e; cases "phase s")
     (simp_all add: step_def on_client_event_def say_def delivers_to_def on_message_map_other
        split: option.splits)

lemma run_map_frame:
  "\<forall>e\<in>set es. \<not> delivers_to k e \<Longrightarrow> lastSavedByKey (run h s es) k = lastSavedByKey s k"
  by (induction es arbitrary: s) (simp_all add: step_map_frame)

lemma step_Message:
  "phase s = Running \<Longrightarrow> step h s (Message d) = fst (on_message h s d)"
  by (simp add: step_def on_client_event_def)

lemma step_InsertSettled:
  "phase s = Running \<Longrightarrow> step h s (InsertSettled i r) = on_insert_settled s i r"
  by (simp add: step_def on_client_event_def)

lemma step_Exited: "phase s = Exited c \<Longrightarrow> step h s e = s"
  by (simp add: step_def)

lemma run_Exited: "phase s = Exited c \<Longrightarrow> run h s es = s"
  by (induction es) (simp_all add: step_Exited)

lemma on_message_phase [simp]: "phase (fst (on_message h s d)) = phase s"
  by (simp add: on_message_def Let_def split: option.splits)

lemma demo_ms: "minIntervalMs demo_host = Fin 60000"
  by (simp add: minIntervalMs_def minIntervalSec_def demo_host_def demo_env_def)

lemma demo_missing: "missing_var demo_env requiredVars = None"
  by (simp add: requiredVars_def demo_env_def falsy_def)

lemma demo_boot:
  "boot demo_host =
     \<lparr>phase = Connecting, lastSavedByKey = Map.empty, awaiting = [], closing = 0,
      trace = [Console StartingBackend, Console ConnectingMongo, MongoConnect]\<rparr>"
  using demo_missing by (simp add: boot_def minIntervalSec_def demo_host_def demo_env_def)

lemma demo_running_state:
  "demo_running =
     \<lparr>phase = Running, lastSavedByKey = Map.empty, awaiting = [], closing = 0,
      trace = [Console StartingBackend, Console ConnectingMongo, MongoConnect,
               Console (MongoConnected (Some [0x64]) (Some [0x63])),
               Console (ConnectingMQTT (Some [0x6D, 0x71, 0x74, 0x74, 0x3A, 0x2F, 0x2F, 0x68])
                          (Some [0x23])),
               MqttConnect (Some [0x6D, 0x71, 0x74, 0x74, 0x3A, 0x2F, 0x2F, 0x68]),
               Console MqttConnected, MqttSubscribe (Some [0x23])]\<rparr>"
proof -
  have db: "Db_collection demo_host a b = None" for a b
    by (simp add: demo_host_def)
  show ?thesis
    by (simp add: demo_running_def demo_boot step_def on_mongo_settled_def on_client_event_def db)
       (simp add: demo_host_def demo_env_def)
qed

lemma demo_first:
  "on_message demo_host demo_running d_first =
     (demo_running\<lparr>lastSavedByKey := [[0x73] \<mapsto> 1790000000000],
        awaiting := [\<lparr>doc_topic = [0x73], payload = [0x7B, 0x7D], receivedAt = 1790000000001\<rparr>],
        trace := trace demo_running @
          [InsertOne \<lparr>doc_topic = [0x73], payload = [0x7B, 0x7D], receivedAt = 1790000000001\<rparr>]\<rparr>,
      Awaiting \<lparr>doc_topic = [0x73], payload = [0x7B, 0x7D], receivedAt = 1790000000001\<rparr>)"
  by (simp add: on_message_def throttled_def demo_ms d_first_def demo_running_state Let_def)
     (simp add: demo_host_def Let_def)

lemma demo_saved_state:
  "demo_saved =
     demo_running\<lparr>lastSavedByKey := [[0x73] \<mapsto> 1790000000000],
        awaiting := [\<lparr>doc_topic = [0x73], payload = [0x7B, 0x7D], receivedAt = 1790000000001\<rparr>],
        trace := trace demo_running @
          [InsertOne \<lparr>doc_topic = [0x73], payload = [0x7B, 0x7D], receivedAt = 1790000000001\<rparr>]\<rparr>"
  by (simp add: demo_saved_def demo_first)

lemma demo_first_verdict:
  "on_message demo_host demo_running d_first =
     (demo_saved, Awaiting \<lparr>doc_topic = [0x73], payload = [0x7B, 0x7D], receivedAt = 1790000000001\<rparr>)"
  by (simp add: demo_saved_state demo_first)

subsection \<open>The rate gate\<close>

text \<open>
  Claim C1. Let a message on a topic be accepted and committed at time \<open>t1\<close>, and let
  the next message on that topic arrive at \<open>t2\<close>, later than \<open>t1\<close>. It is rejected,
  with the state unchanged, when \<open>t2 - t1\<close> is less than the minimum interval. It
  passes the gate when \<open>t2 - t1\<close> is not less, and if its text parses it is handed to
  the sink and committed at \<open>t2\<close>. With a minimum interval of 0 it passes, as does
  every message whose clock is not behind the last accepted time of its topic.
\<close>

theorem C1_min_interval_window:
  assumes acc: "on_message h s d1 = (s1, Awaiting doc1)"
    and key: "topic d2 = topic d1"
    and later: "clock d1 < clock d2"
  shows "(js_lt (Fin (of_int (clock d2 - clock d1))) (minIntervalMs h) \<longrightarrow>
            on_message h s1 d2 = (s1, Throttled))
       \<and> (\<not> js_lt (Fin (of_int (clock d2 - clock d1))) (minIntervalMs h) \<longrightarrow>
            \<not> throttled h s1 (topic d2) (clock d2) \<and>
            snd (on_message h s1 d2) \<noteq> Throttled \<and>
            (\<forall>p. JSON_parse h (Buffer_toString h (message d2)) = Some p \<longrightarrow>
               snd (on_message h s1 d2) =
                 Awaiting \<lparr>doc_topic = topic d2, payload = p, receivedAt = date d2\<rparr> \<and>
               lastSavedByKey (fst (on_message h s1 d2)) (topic d2) = Some (clock d2)))
       \<and> (minIntervalMs h = Fin 0 \<longrightarrow> \<not> throttled h s1 (topic d2) (clock d2))
       \<and> (minIntervalMs h = Fin 0 \<longrightarrow>
            (\<forall>s' k now. or_zero (lastSavedByKey (s' :: 'a proc) k) \<le> now \<longrightarrow> \<not> throttled h s' k now))"
proof -
  have commit: "lastSavedByKey s1 (topic d2) = Some (clock d1)"
    using on_message_Awaiting(3) [OF acc] key by simp
  have gate: "throttled h s1 (topic d2) (clock d2) =
                js_lt (Fin (of_int (clock d2 - clock d1))) (minIntervalMs h)"
    by (rule throttled_after_commit [OF commit])
  have rej: "js_lt (Fin (of_int (clock d2 - clock d1))) (minIntervalMs h) \<Longrightarrow>
               on_message h s1 d2 = (s1, Throttled)"
    using gate by (simp add: on_message_throttled)
  have pass: "\<not> throttled h s1 (topic d2) (clock d2) \<Longrightarrow> snd (on_message h s1 d2) \<noteq> Throttled"
    by (simp add: on_message_def Let_def split: option.splits)
  have valid: "\<not> throttled h s1 (topic d2) (clock d2) \<Longrightarrow>
                 JSON_parse h (Buffer_toString h (message d2)) = Some p \<Longrightarrow>
                 snd (on_message h s1 d2) =
                   Awaiting \<lparr>doc_topic = topic d2, payload = p, receivedAt = date d2\<rparr> \<and>
                 lastSavedByKey (fst (on_message h s1 d2)) (topic d2) = Some (clock d2)" for p
    by (simp add: on_message_accepted)
  have zero: "minIntervalMs h = Fin 0 \<Longrightarrow> or_zero (lastSavedByKey s' k) \<le> now \<Longrightarrow>
                \<not> throttled h s' k now" for s' :: "'a proc" and k now
    by (simp add: throttled_def)
  have zero1: "minIntervalMs h = Fin 0 \<Longrightarrow> \<not> throttled h s1 (topic d2) (clock d2)"
    using gate later by simp
  show ?thesis
    using rej pass valid zero zero1 gate by blast
qed

theorem C1_min_interval_window_witness:
  "on_message demo_host demo_saved d_soon = (demo_saved, Throttled)
   \<and> snd (on_message demo_host demo_saved d_late) =
       Awaiting \<lparr>doc_topic = [0x73], payload = [0x7B, 0x7D], receivedAt = 1790000061001\<rparr>
   \<and> lastSavedByKey (fst (on_message demo_host demo_saved d_late)) [0x73] = Some 1790000061000"
proof -
  have soon: "topic d_soon = topic d_first" "clock d_first < clock d_soon"
    "js_lt (Fin (of_int (clock d_soon - clock d_first))) (minIntervalMs demo_host)"
    by (simp_all add: d_soon_def d_first_def demo_ms)
  have late: "topic d_late = topic d_first" "clock d_first < clock d_late"
    "\<not> js_lt (Fin (of_int (clock d_late - clock d_first))) (minIntervalMs demo_host)"
    by (simp_all add: d_late_def d_first_def demo_ms)
  have parsed: "JSON_parse demo_host (Buffer_toString demo_host (message d_late)) = Some [0x7B, 0x7D]"
    by (simp add: d_late_def demo_host_def)
  show ?thesis
    using C1_min_interval_window [OF demo_first_verdict soon(1) soon(2)]
      C1_min_interval_window [OF demo_first_verdict late(1) late(2)] soon(3) late(3) parsed
    by (simp add: d_late_def)
qed

lemma on_message_verdict_Throttled:
  "snd (on_message h s d) = Throttled \<longleftrightarrow> throttled h s (topic d) (clock d)"
  by (simp add: on_message_def Let_def split: option.splits)

lemma on_message_same_map:
  "lastSavedByKey s' = lastSavedByKey s \<Longrightarrow>
   snd (on_message h s' d) = snd (on_message h s d) \<and>
   lastSavedByKey (fst (on_message h s' d)) = lastSavedByKey (fst (on_message h s d))"
  by (simp add: on_message_def throttled_def Let_def split: option.splits)

lemma step_Message_map:
  "phase s' = phase s \<Longrightarrow> lastSavedByKey s' = lastSavedByKey s \<Longrightarrow>
   lastSavedByKey (step h s' (Message d)) = lastSavedByKey (step h s (Message d))"
  using on_message_same_map [of s' s h d]
  by (cases "phase s") (simp_all add: step_def on_client_event_def)

text \<open>
  Claim C2. When a message is accepted, the state in which the handler suspends with
  its document handed to the sink already holds the commit: the accepted time is
  recorded for the topic. When that insert then fails, the handler prints the error and
  nothing else changes: the recorded time stays.
\<close>

theorem C2_commit_before_write:
  assumes run: "phase s = Running"
    and acc: "on_message h s d = (s1, Awaiting doc)"
  shows "step h s (Message d) = s1
       \<and> lastSavedByKey s1 (topic d) = Some (clock d)
       \<and> awaiting s1 = awaiting s @ [doc]
       \<and> trace s1 = trace s @ [InsertOne doc]
       \<and> (let s2 = step h s1 (InsertSettled (length (awaiting s)) (Rejected err))
          in lastSavedByKey s2 = lastSavedByKey s1
           \<and> lastSavedByKey s2 (topic d) = Some (clock d)
           \<and> trace s2 = trace s1 @ [Console (ErrorProcessingMessage err)]
           \<and> awaiting s2 = awaiting s
           \<and> phase s2 = Running)"
proof -
  have s1: "s1 = s\<lparr>lastSavedByKey := (lastSavedByKey s)(topic d \<mapsto> clock d),
                   awaiting := awaiting s @ [doc], trace := trace s @ [InsertOne doc]\<rparr>"
    by (rule on_message_Awaiting(3) [OF acc])
  have first: "step h s (Message d) = s1"
    using run acc by (simp add: step_Message)
  have ph: "phase s1 = Running"
    using run s1 by simp
  have settled: "step h s1 (InsertSettled (length (awaiting s)) (Rejected err)) =
                   s1\<lparr>awaiting := awaiting s,
                      trace := trace s1 @ [Console (ErrorProcessingMessage err)]\<rparr>"
    using ph by (simp add: step_InsertSettled on_insert_settled_def s1)
  show ?thesis
    unfolding Let_def settled using first ph by (simp add: s1)
qed

theorem C2_commit_before_write_witness:
  "lastSavedByKey demo_saved [0x73] = Some 1790000000000
   \<and> trace demo_saved = trace demo_running @
        [InsertOne \<lparr>doc_topic = [0x73], payload = [0x7B, 0x7D], receivedAt = 1790000000001\<rparr>]
   \<and> lastSavedByKey (step demo_host demo_saved (InsertSettled 0 (Rejected [0x65]))) [0x73] =
        Some 1790000000000
   \<and> trace (step demo_host demo_saved (InsertSettled 0 (Rejected [0x65]))) =
        trace demo_saved @ [Console (ErrorProcessingMessage [0x65])]"
proof -
  have run: "phase demo_running = Running"
    by (simp add: demo_running_state)
  have none: "length (awaiting demo_running) = 0" "topic d_first = [0x73]"
    "clock d_first = 1790000000000"
    by (simp_all add: demo_running_state d_first_def)
  show ?thesis
    using C2_commit_before_write [OF run demo_first_verdict, of "[0x65]"] none
    by (simp add: Let_def)
qed

text \<open>
  Claim C3, as stated: the first message of a topic is accepted whatever the clock
  reads. It fails: the sample process has seen no message on the topic, the interval is
  60 seconds, the clock reads 5 seconds, and the message is throttled.
\<close>

theorem C3_first_message_counterexample:
  "lastSavedByKey demo_running (topic d_epoch) = None
   \<and> on_message demo_host demo_running d_epoch = (demo_running, Throttled)"
  by (simp add: on_message_def throttled_def demo_ms d_epoch_def demo_running_state)

text \<open>
  Claim C3, amended. A topic without an entry is read as last accepted at time 0. Its
  first message is throttled exactly when the clock is less than the minimum interval;
  for a finite interval it passes the gate exactly when the clock has reached it.
\<close>

theorem C3_first_message:
  assumes "lastSavedByKey s (topic d) = None"
  shows "(throttled h s (topic d) (clock d) \<longleftrightarrow> js_lt (Fin (of_int (clock d))) (minIntervalMs h))
       \<and> (\<forall>r. minIntervalMs h = Fin r \<longrightarrow>
            (snd (on_message h s d) \<noteq> Throttled \<longleftrightarrow> r \<le> of_int (clock d)))"
  using assms by (auto simp: on_message_verdict_Throttled throttled_def)

theorem C3_first_message_witness:
  "snd (on_message demo_host demo_running d_first) \<noteq> Throttled \<and>
   (60000::real) \<le> of_int (clock d_first)"
proof -
  have fresh: "lastSavedByKey demo_running (topic d_first) = None"
    by (simp add: demo_running_state)
  have "(60000::real) \<le> of_int (clock d_first)"
    by (simp add: d_first_def)
  then show ?thesis
    using C3_first_message [OF fresh, of demo_host] demo_ms by simp
qed

subsection \<open>The order of gate and decoder\<close>

text \<open>
  Claim C4, as stated: the message is decoded first, and a text that does not parse
  ends as dropped-malformed. It fails: the text \<^verbatim>\<open>not-json\<close> does not parse, it
  arrives 30 seconds after an accepted message of its topic, and the handler ends at the
  throttle return, without a line printed.
\<close>

theorem C4_decode_first_counterexample:
  "JSON_parse demo_host (Buffer_toString demo_host (message d_garbled)) = None
   \<and> on_message demo_host demo_saved d_garbled = (demo_saved, Throttled)"
proof -
  have "JSON_parse demo_host (Buffer_toString demo_host (message d_garbled)) = None"
    by (simp add: demo_host_def d_garbled_def)
  moreover have "on_message demo_host demo_saved d_garbled = (demo_saved, Throttled)"
    by (simp add: on_message_def throttled_def demo_ms d_garbled_def demo_saved_state Let_def)
  ultimately show ?thesis by simp
qed

text \<open>
  Claim C4, amended. The handler queries the gate first. On a rejection it returns with
  the state unchanged, whatever the decoder would say of the bytes. Only when the gate
  passes are the bytes decoded: a text that does not parse ends the handler with one
  line printed and nothing else changed, and a text that parses is committed and handed
  to the sink.
\<close>

theorem C4_gate_then_decode:
  "(throttled h s (topic d) (clock d) \<longrightarrow>
      (\<forall>f g. on_message (h\<lparr>Buffer_toString := g, JSON_parse := f\<rparr>) s d = (s, Throttled)))
   \<and> (\<not> throttled h s (topic d) (clock d) \<longrightarrow>
        (case JSON_parse h (Buffer_toString h (message d)) of
           None \<Rightarrow>
             on_message h s d =
               (s\<lparr>trace := trace s @
                    [Console (InvalidJSONPayload (topic d)
                       (take 300 (Buffer_toString h (message d))))]\<rparr>,
                Malformed)
         | Some p \<Rightarrow>
             on_message h s d =
               (s\<lparr>lastSavedByKey := (lastSavedByKey s)(topic d \<mapsto> clock d),
                  awaiting := awaiting s @
                    [\<lparr>doc_topic = topic d, payload = p, receivedAt = date d\<rparr>],
                  trace := trace s @
                    [InsertOne \<lparr>doc_topic = topic d, payload = p, receivedAt = date d\<rparr>]\<rparr>,
                Awaiting \<lparr>doc_topic = topic d, payload = p, receivedAt = date d\<rparr>)))"
proof -
  have "throttled (h\<lparr>Buffer_toString := g, JSON_parse := f\<rparr>) s k now = throttled h s k now"
    for f :: "jsstring \<Rightarrow> 'a option" and g k now
    by (simp add: throttled_def minIntervalMs_def minIntervalSec_def)
  then show ?thesis
    by (simp add: on_message_throttled on_message_malformed on_message_accepted
          split: option.splits)
qed

theorem C4_gate_then_decode_witness:
  "on_message (demo_host\<lparr>Buffer_toString := map ucast, JSON_parse := Some\<rparr>) demo_saved d_garbled =
     (demo_saved, Throttled)
   \<and> snd (on_message demo_host demo_running d_first) =
       Awaiting \<lparr>doc_topic = [0x73], payload = [0x7B, 0x7D], receivedAt = 1790000000001\<rparr>"
proof -
  have shut: "throttled demo_host demo_saved (topic d_garbled) (clock d_garbled)"
    by (simp add: throttled_def demo_ms d_garbled_def demo_saved_state)
  have "open": "\<not> throttled demo_host demo_running (topic d_first) (clock d_first)"
    by (simp add: throttled_def demo_ms d_first_def demo_running_state)
  have parsed: "JSON_parse demo_host (Buffer_toString demo_host (message d_first)) = Some [0x7B, 0x7D]"
    by (simp add: demo_host_def d_first_def)
  show ?thesis
    using C4_gate_then_decode [of demo_host demo_saved d_garbled]
      C4_gate_then_decode [of demo_host demo_running d_first] shut "open" parsed
    by (simp add: d_first_def)
qed

subsection \<open>What a message leaves behind\<close>

lemma step_Message_any:
  "step h s (Message d) = (if phase s = Running then fst (on_message h s d) else s)"
  by (cases "phase s") (simp_all add: step_def on_client_event_def)


text \<open>
  Claim C5. A message whose text does not parse leaves the process running and the
  throttle map as it was, for every key; no document is handed to the sink and no handler
  is left suspended. If the gate rejects the message the state is unchanged; otherwise
  the parse fails and the only change is one printed line, which carries the topic and
  the first 300 code units of the text at most. The message that follows is decided and
  committed as if the malformed one had not arrived.
\<close>

theorem C5_malformed_payload:
  assumes run: "phase s = Running"
    and bad: "JSON_parse h (Buffer_toString h (message d)) = None"
  shows "let s' = step h s (Message d);
             excerpt = take 300 (Buffer_toString h (message d))
         in phase s' = Running
          \<and> lastSavedByKey s' = lastSavedByKey s
          \<and> awaiting s' = awaiting s
          \<and> filter is_insert (trace s') = filter is_insert (trace s)
          \<and> length excerpt \<le> 300
          \<and> (throttled h s (topic d) (clock d) \<longrightarrow> s' = s)
          \<and> (\<not> throttled h s (topic d) (clock d) \<longrightarrow>
                s' = s\<lparr>trace := trace s @ [Console (InvalidJSONPayload (topic d) excerpt)]\<rparr>)
          \<and> (\<forall>d'. snd (on_message h s' d') = snd (on_message h s d')
                  \<and> lastSavedByKey (step h s' (Message d')) =
                      lastSavedByKey (step h s (Message d')))"
proof -
  define s' where "s' = step h s (Message d)"
  define excerpt where "excerpt = take 300 (Buffer_toString h (message d))"
  have shut: "throttled h s (topic d) (clock d) \<Longrightarrow> s' = s"
    using run by (simp add: s'_def step_Message on_message_throttled)
  have "open": "\<not> throttled h s (topic d) (clock d) \<Longrightarrow>
                s' = s\<lparr>trace := trace s @ [Console (InvalidJSONPayload (topic d) excerpt)]\<rparr>"
    using run bad by (simp add: s'_def excerpt_def step_Message on_message_malformed)
  have ph: "phase s' = Running" and m: "lastSavedByKey s' = lastSavedByKey s"
    and aw: "awaiting s' = awaiting s"
    and ins: "filter is_insert (trace s') = filter is_insert (trace s)"
    using shut "open" run by (cases "throttled h s (topic d) (clock d)"; simp)+
  have len: "length excerpt \<le> 300"
    by (simp add: excerpt_def)
  have next_verdict: "snd (on_message h s' d') = snd (on_message h s d')" for d'
    using on_message_same_map [OF m] by simp
  have next_map: "lastSavedByKey (step h s' (Message d')) = lastSavedByKey (step h s (Message d'))"
    for d'
    using ph run m by (simp add: step_Message_map)
  show ?thesis
    unfolding Let_def s'_def [symmetric] excerpt_def [symmetric]
    using ph m aw ins len shut "open" next_verdict next_map by blast
qed

theorem C5_malformed_payload_witness:
  "step demo_host demo_running (Message d_long) =
     demo_running\<lparr>trace := trace demo_running @
        [Console (InvalidJSONPayload [0x73] (replicate 300 0x78))]\<rparr>
   \<and> step demo_host demo_saved (Message d_garbled) = demo_saved"
proof -
  have run: "phase demo_running = Running" "phase demo_saved = Running"
    by (simp_all add: demo_saved_state demo_running_state)
  have long: "replicate 400 (0x78 :: 16 word) \<noteq> [0x7B, 0x7D]"
    by (auto dest: arg_cong [where f = length])
  have bad: "JSON_parse demo_host (Buffer_toString demo_host (message d_long)) = None"
    "JSON_parse demo_host (Buffer_toString demo_host (message d_garbled)) = None"
    using long by (simp_all add: demo_host_def d_garbled_def d_long_def)
  have gate: "\<not> throttled demo_host demo_running (topic d_long) (clock d_long)"
    "throttled demo_host demo_saved (topic d_garbled) (clock d_garbled)"
    by (simp_all add: throttled_def demo_ms d_garbled_def d_long_def demo_running_state
          demo_saved_state)
  have cut: "take 300 (Buffer_toString demo_host (message d_long)) = replicate 300 0x78"
    "topic d_long = [0x73]"
    by (simp_all add: demo_host_def d_long_def)
  have printed: "step demo_host demo_running (Message d_long) =
      demo_running\<lparr>trace := trace demo_running @
        [Console (InvalidJSONPayload (topic d_long)
           (take 300 (Buffer_toString demo_host (message d_long))))]\<rparr>"
    using C5_malformed_payload [OF run(1) bad(1)] gate(1) by (simp add: Let_def)
  have silent: "step demo_host demo_saved (Message d_garbled) = demo_saved"
    using C5_malformed_payload [OF run(2) bad(2)] gate(2) by (simp add: Let_def)
  show ?thesis
    using printed silent by (simp add: cut)
qed

text \<open>
  Claim C6. Accepting and committing a message on one topic records the time for that
  topic and leaves the entry of every other key, and so the gate's answer for it,
  unchanged.
\<close>

theorem C6_other_keys_untouched:
  assumes acc: "on_message h s d = (s1, Awaiting doc)"
    and other: "k2 \<noteq> topic d"
  shows "lastSavedByKey s1 (topic d) = Some (clock d)
       \<and> lastSavedByKey s1 k2 = lastSavedByKey s k2
       \<and> lastSavedByKey (step h s (Message d)) k2 = lastSavedByKey s k2
       \<and> (\<forall>now. throttled h s1 k2 now = throttled h s k2 now)"
proof -
  have s1: "s1 = s\<lparr>lastSavedByKey := (lastSavedByKey s)(topic d \<mapsto> clock d),
                   awaiting := awaiting s @ [doc], trace := trace s @ [InsertOne doc]\<rparr>"
    by (rule on_message_Awaiting(3) [OF acc])
  have same: "lastSavedByKey s1 k2 = lastSavedByKey s k2"
    using other by (simp add: s1)
  have "lastSavedByKey (step h s (Message d)) k2 = lastSavedByKey s k2"
    using other by (simp add: step_map_frame delivers_to_def)
  then show ?thesis
    using same throttled_cong [OF same] by (simp add: s1)
qed

theorem C6_other_keys_untouched_witness:
  "lastSavedByKey demo_saved [0x73] = Some 1790000000000
   \<and> lastSavedByKey demo_saved [0x74] = lastSavedByKey demo_running [0x74]
   \<and> lastSavedByKey demo_saved [0x74] = None"
proof -
  have other: "[0x74] \<noteq> topic d_first"
    by (simp add: d_first_def)
  show ?thesis
    using C6_other_keys_untouched [OF demo_first_verdict other]
    by (simp add: d_first_def demo_running_state)
qed

text \<open>
  Claim C7. A rejected message changes nothing: the state after it, and with it the
  throttle map, is the state before it. Whatever arrives next is handled as from the
  state before, and a run that starts with the rejected message ends as the run
  without it.
\<close>

theorem C7_reject_leaves_no_mark:
  assumes rej: "snd (on_message h s d) = Throttled"
  shows "fst (on_message h s d) = s
       \<and> step h s (Message d) = s
       \<and> lastSavedByKey (step h s (Message d)) = lastSavedByKey s
       \<and> (\<forall>d'. on_message h (step h s (Message d)) d' = on_message h s d')
       \<and> (\<forall>es. run h s (Message d # es) = run h s es)"
proof -
  have "throttled h s (topic d) (clock d)"
    using rej by (simp add: on_message_verdict_Throttled)
  then have same: "fst (on_message h s d) = s"
    by (simp add: on_message_throttled)
  then have "step h s (Message d) = s"
    by (simp add: step_Message_any)
  then show ?thesis
    using same by simp
qed

theorem C7_reject_leaves_no_mark_witness:
  "step demo_host demo_saved (Message d_soon) = demo_saved
   \<and> run demo_host demo_saved [Message d_soon, Message d_late] =
       run demo_host demo_saved [Message d_late]"
proof -
  have "snd (on_message demo_host demo_saved d_soon) = Throttled"
    by (simp add: on_message_def throttled_def demo_ms d_soon_def demo_saved_state Let_def)
  then show ?thesis
    using C7_reject_leaves_no_mark [of demo_host demo_saved d_soon] by simp
qed

subsection \<open>Handlers in flight\<close>

lemma committed_iff:
  "committed s \<longleftrightarrow> (\<forall>doc\<in>set (awaiting s). lastSavedByKey s (doc_topic doc) \<noteq> None)"
  by (simp add: committed_def list_all_iff)

lemma on_message_committed: "committed s \<Longrightarrow> committed (fst (on_message h s d))"
  by (auto simp: committed_iff on_message_def Let_def split: option.splits)

lemma on_insert_settled_committed: "committed s \<Longrightarrow> committed (on_insert_settled s i r)"
  by (auto simp: committed_iff on_insert_settled_def Let_def split: settle.splits
      dest: in_set_takeD in_set_dropD)

lemma step_committed: "committed s \<Longrightarrow> committed (step h s e)"
proof (cases "phase s")
  case Connecting
  assume "committed s"
  then show ?thesis
    using Connecting
    by (cases e)
       (auto simp: step_def committed_iff on_mongo_settled_def fatal_def shutdown_def
          on_close_settled_def Let_def split: settle.splits option.splits)
next
  case Running
  assume c: "committed s"
  show ?thesis
  proof (cases e)
    case (Message d)
    then show ?thesis using c Running by (simp add: step_Message on_message_committed)
  next
    case (InsertSettled i r)
    then show ?thesis using c Running by (simp add: step_InsertSettled on_insert_settled_committed)
  qed (use c Running in \<open>auto simp: step_def on_client_event_def say_def committed_iff shutdown_def
          on_close_settled_def Let_def split: settle.splits option.splits\<close>)
next
  case (Exited c)
  assume "committed s"
  then show ?thesis using Exited by (simp add: step_Exited)
qed

lemma run_committed: "committed s \<Longrightarrow> committed (run h s es)"
  by (induction es arbitrary: s) (simp_all add: step_committed)

lemma boot_committed: "committed (boot h)"
  by (simp add: committed_def boot_def halted_def split: option.splits)

text \<open>
  Claim C9. The handler has no \<^verbatim>\<open>await\<close> between its test (line 248) and its
  commit (line 266), so both lie in one segment and no other handler runs between them.
  Hence, once a message is accepted, its write is in flight and its time is recorded;
  whatever events follow that deliver nothing on its topic (the settlement of that write
  or of others, messages on other topics, client events, signals), the time stays
  recorded, the gate decides a second message on the topic against it, and rejects the
  second message inside the interval whether the first write has settled or not. In
  every state the process reaches from its start, each suspended handler has its commit
  recorded.
\<close>

theorem C9_check_and_commit_in_one_segment:
  assumes acc: "on_message h s d1 = (s1, Awaiting doc1)"
    and quiet: "\<forall>e\<in>set es. \<not> delivers_to (topic d1) e"
    and key: "topic d2 = topic d1"
  shows "doc1 \<in> set (awaiting s1)
       \<and> lastSavedByKey s1 (topic d1) = Some (clock d1)
       \<and> lastSavedByKey (run h s1 es) (topic d1) = Some (clock d1)
       \<and> throttled h (run h s1 es) (topic d2) (clock d2) =
           js_lt (Fin (of_int (clock d2 - clock d1))) (minIntervalMs h)
       \<and> (js_lt (Fin (of_int (clock d2 - clock d1))) (minIntervalMs h) \<longrightarrow>
            step h (run h s1 es) (Message d2) = run h s1 es)
       \<and> (\<forall>fs. committed (run h (boot h) fs))"
proof -
  have s1: "s1 = s\<lparr>lastSavedByKey := (lastSavedByKey s)(topic d1 \<mapsto> clock d1),
                   awaiting := awaiting s @ [doc1], trace := trace s @ [InsertOne doc1]\<rparr>"
    by (rule on_message_Awaiting(3) [OF acc])
  have flight: "doc1 \<in> set (awaiting s1)" and now: "lastSavedByKey s1 (topic d1) = Some (clock d1)"
    by (simp_all add: s1)
  have kept: "lastSavedByKey (run h s1 es) (topic d2) = Some (clock d1)"
    using run_map_frame [OF quiet, of h s1] now key by simp
  have gate: "throttled h (run h s1 es) (topic d2) (clock d2) =
                js_lt (Fin (of_int (clock d2 - clock d1))) (minIntervalMs h)"
    by (rule throttled_after_commit [OF kept])
  have rej: "js_lt (Fin (of_int (clock d2 - clock d1))) (minIntervalMs h) \<Longrightarrow>
               step h (run h s1 es) (Message d2) = run h s1 es"
    using gate by (simp add: step_Message_any on_message_throttled)
  have inv: "committed (run h (boot h) fs)" for fs
    by (rule run_committed [OF boot_committed])
  show ?thesis
    using flight now kept gate rej inv key by simp
qed

theorem C9_check_and_commit_in_one_segment_witness:
  "lastSavedByKey (run demo_host demo_saved [MqttReconnectEvent, InsertSettled 0 Fulfilled]) [0x73] =
     Some 1790000000000
   \<and> step demo_host (run demo_host demo_saved [MqttReconnectEvent]) (Message d_soon) =
       run demo_host demo_saved [MqttReconnectEvent]
   \<and> step demo_host (run demo_host demo_saved [MqttReconnectEvent, InsertSettled 0 Fulfilled])
        (Message d_soon) =
       run demo_host demo_saved [MqttReconnectEvent, InsertSettled 0 Fulfilled]"
proof -
  have quiet: "\<forall>e\<in>set [MqttReconnectEvent]. \<not> delivers_to (topic d_first) e"
    "\<forall>e\<in>set [MqttReconnectEvent, InsertSettled 0 Fulfilled]. \<not> delivers_to (topic d_first) e"
    by (simp_all add: delivers_to_def)
  have key: "topic d_soon = topic d_first"
    by (simp add: d_soon_def d_first_def)
  have near: "js_lt (Fin (of_int (clock d_soon - clock d_first))) (minIntervalMs demo_host)"
    by (simp add: d_soon_def d_first_def demo_ms)
  have at: "topic d_first = [0x73]" "clock d_first = 1790000000000"
    by (simp_all add: d_first_def)
  show ?thesis
    using C9_check_and_commit_in_one_segment [OF demo_first_verdict quiet(1) key]
      C9_check_and_commit_in_one_segment [OF demo_first_verdict quiet(2) key] near
    unfolding at by blast
qed

subsection \<open>Start and exit\<close>

lemma missing_var_first:
  "v \<in> set vs \<Longrightarrow> falsy (env v) \<Longrightarrow>
   \<forall>u\<in>set (takeWhile (\<lambda>u. u \<noteq> v) vs). \<not> falsy (env u) \<Longrightarrow> missing_var env vs = Some v"
  by (induction vs) auto

lemma boot_missing:
  assumes "\<exists>v\<in>set requiredVars. falsy (process_env h v)"
  shows "\<exists>w\<in>set requiredVars. falsy (process_env h w) \<and>
           boot h = halted 1 [Console (MissingEnvVariable w)]"
proof -
  from assms obtain w where w: "missing_var (process_env h) requiredVars = Some w"
    using missing_var_None [of "process_env h" requiredVars] by auto
  then show ?thesis
    using missing_var_Some [OF w] by (auto simp: boot_def)
qed






















text \<open>
  Claim C10. A required variable set to the empty string has the effect of the variable
  being absent: the module body ends the same way, with status 1, after printing the
  name of the first required variable that is empty or absent, which is this variable
  when those before it in the list are set. No connection is opened, and nothing runs
  after.
\<close>

theorem C10_empty_is_missing:
  assumes req: "v \<in> set requiredVars"
    and empty: "process_env h v = Some []"
  shows "boot h = boot (h\<lparr>process_env := (process_env h)(v := None)\<rparr>)
       \<and> phase (boot h) = Exited 1
       \<and> (\<exists>w\<in>set requiredVars. falsy (process_env h w) \<and>
             trace (boot h) = [Console (MissingEnvVariable w), ProcessExit 1])
       \<and> ((\<forall>u\<in>set (takeWhile (\<lambda>u. u \<noteq> v) requiredVars). \<not> falsy (process_env h u)) \<longrightarrow>
             trace (boot h) = [Console (MissingEnvVariable v), ProcessExit 1])
       \<and> (\<forall>es. run h (boot h) es = boot h)"
proof -
  have f: "falsy (process_env h v)"
    using empty by (simp add: falsy_def)
  then obtain w where w: "w \<in> set requiredVars" "falsy (process_env h w)"
      "boot h = halted 1 [Console (MissingEnvVariable w)]"
    using boot_missing [of h] req by blast
  have same: "missing_var ((process_env h)(v := None)) requiredVars =
                missing_var (process_env h) requiredVars"
    using f by (intro missing_var_cong) (simp add: falsy_def)
  have found: "missing_var (process_env h) requiredVars \<noteq> None"
    using req f by (auto simp: missing_var_None)
  have eq: "boot h = boot (h\<lparr>process_env := (process_env h)(v := None)\<rparr>)"
    using same found by (auto simp: boot_def)
  have first: "\<forall>u\<in>set (takeWhile (\<lambda>u. u \<noteq> v) requiredVars). \<not> falsy (process_env h u) \<Longrightarrow>
                 trace (boot h) = [Console (MissingEnvVariable v), ProcessExit 1]"
    using missing_var_first [of v requiredVars "process_env h"] req f by (simp add: boot_def halted_def)
  have dead: "run h (boot h) es = boot h" for es
    using w(3) by (simp add: run_Exited halted_def)
  have ph: "phase (boot h) = Exited 1"
    by (simp add: w(3) halted_def)
  have tr: "\<exists>w\<in>set requiredVars. falsy (process_env h w) \<and>
              trace (boot h) = [Console (MissingEnvVariable w), ProcessExit 1]"
    using w by (auto simp: halted_def)
  show ?thesis
    using eq ph tr first dead by blast
qed

theorem C10_empty_is_missing_witness:
  "boot demo_unset = boot (demo_unset\<lparr>process_env := (process_env demo_unset)(''MQTT_TOPIC'' := None)\<rparr>)
   \<and> phase (boot demo_unset) = Exited 1
   \<and> trace (boot demo_unset) = [Console (MissingEnvVariable ''MQTT_TOPIC''), ProcessExit 1]"
proof -
  have req: "''MQTT_TOPIC'' \<in> set requiredVars"
    by (simp add: requiredVars_def)
  have empty: "process_env demo_unset ''MQTT_TOPIC'' = Some []"
    by (simp add: demo_unset_def)
  have before: "\<forall>u\<in>set (takeWhile (\<lambda>u. u \<noteq> ''MQTT_TOPIC'') requiredVars).
                  \<not> falsy (process_env demo_unset u)"
    by (simp add: requiredVars_def demo_unset_def demo_env_def falsy_def)
  show ?thesis
    using C10_empty_is_missing [OF req empty] before by blast
qed

end
